theory Spec2Isabelle
  imports Main
begin

section \<open>JavaScript values\<close>

text \<open>
  The values that cross the repository layer: request fields, query parameters and the
  cells of result rows. Numbers are the integers of the data model (employee counts,
  salaries, identifiers); equity travels as a string. An object is the list of its own
  enumerable properties in enumeration order, which is the order \<^verbatim>\<open>Object.keys\<close>
  and \<^verbatim>\<open>Object.values\<close> follow.
\<close>

datatype jsval =
    JUndefined
  | JNull
  | JBool bool
  | JNum int
  | JStr string
  | JArr "jsval list"
  | JObj "(string \<times> jsval) list"

type_synonym js_object = "(string \<times> jsval) list"

text \<open>Truthiness, as \<^verbatim>\<open>if (x)\<close>, \<^verbatim>\<open>x || y\<close> and \<^verbatim>\<open>!x\<close> test it.\<close>

fun truthy :: "jsval \<Rightarrow> bool" where
  "truthy JUndefined = False"
| "truthy JNull = False"
| "truthy (JBool b) = b"
| "truthy (JNum n) = (n \<noteq> 0)"
| "truthy (JStr s) = (s \<noteq> [])"
| "truthy (JArr _) = True"
| "truthy (JObj _) = True"

definition js_or :: "jsval \<Rightarrow> jsval \<Rightarrow> jsval" where
  "js_or a b = (if truthy a then a else b)"

text \<open>
  Property access \<^verbatim>\<open>obj[key]\<close> on own properties: a missing key reads as undefined.
  Properties inherited from the prototype are not modelled.
\<close>

definition js_get :: "js_object \<Rightarrow> string \<Rightarrow> jsval" where
  "js_get obj k = (case map_of obj k of None \<Rightarrow> JUndefined | Some v \<Rightarrow> v)"

definition object_keys :: "js_object \<Rightarrow> string list" where
  "object_keys obj = map fst obj"

definition object_values :: "js_object \<Rightarrow> jsval list" where
  "object_values obj = map snd obj"

text \<open>
  Assignment \<^verbatim>\<open>obj[key] = v\<close> (an existing property keeps its place, a new one goes
  last) and \<^verbatim>\<open>delete obj[key]\<close>.
\<close>

fun js_set :: "js_object \<Rightarrow> string \<Rightarrow> jsval \<Rightarrow> js_object" where
  "js_set [] k v = [(k, v)]"
| "js_set ((k', v') # ps) k v = (if k' = k then (k, v) # ps else (k', v') # js_set ps k v)"

definition js_delete :: "js_object \<Rightarrow> string \<Rightarrow> js_object" where
  "js_delete obj k = filter (\<lambda>(k', _). k' \<noteq> k) obj"

subsection \<open>Conversion to strings\<close>

definition digit_char :: "nat \<Rightarrow> char" where
  "digit_char d = ''0123456789'' ! d"

function show_nat :: "nat \<Rightarrow> string" where
  "show_nat n = (if n < 10 then [digit_char n] else show_nat (n div 10) @ [digit_char (n mod 10)])"
  by pat_completeness auto
termination
  by (relation "measure id") auto

declare show_nat.simps [simp del]

definition show_int :: "int \<Rightarrow> string" where
  "show_int i = (if i < 0 then CHR ''-'' # show_nat (nat (- i)) else show_nat (nat i))"

text \<open>\<^verbatim>\<open>Array.prototype.join\<close> on strings.\<close>

fun join :: "string \<Rightarrow> string list \<Rightarrow> string" where
  "join sep [] = []"
| "join sep [x] = x"
| "join sep (x # y # ys) = x @ sep @ join sep (y # ys)"

text \<open>
  The string a template literal \<^verbatim>\<open>`${v}`\<close> inserts. An array is the comma-join of
  its elements, with null and undefined elements empty.
\<close>

fun toString :: "jsval \<Rightarrow> string" where
  "toString JUndefined = ''undefined''"
| "toString JNull = ''null''"
| "toString (JBool b) = (if b then ''true'' else ''false'')"
| "toString (JNum n) = show_int n"
| "toString (JStr s) = s"
| "toString (JArr xs) =
     join '','' (map (\<lambda>x. if x = JUndefined \<or> x = JNull then [] else toString x) xs)"
| "toString (JObj _) = ''[object Object]''"

section \<open>Errors\<close>

datatype error =
    BadRequestError string
  | NotFoundError string
  | ReferenceError string
  | DatabaseError

section \<open>helpers/sql: sqlForPartialUpdate\<close>

record partial_update =
  setCols :: string
  "values" :: "jsval list"

text \<open>The column a field is written to: \<^verbatim>\<open>jsToSql[colName] || colName\<close>, as text.\<close>

definition column_name :: "js_object \<Rightarrow> string \<Rightarrow> string" where
  "column_name jsToSql colName = toString (js_or (js_get jsToSql colName) (JStr colName))"

text \<open>
  The fragments \<^verbatim>\<open>keys.map((colName, idx) => `"${jsToSql[colName] || colName}"=$${idx + 1}`)\<close>.
\<close>

definition cols :: "string list \<Rightarrow> js_object \<Rightarrow> string list" where
  "cols keys jsToSql =
     map (\<lambda>(idx, colName). ''\"'' @ column_name jsToSql colName @ ''\"=$'' @ show_nat (idx + 1))
         (enumerate 0 keys)"

definition sqlForPartialUpdate :: "js_object \<Rightarrow> js_object \<Rightarrow> error + partial_update" where
  "sqlForPartialUpdate dataToUpdate jsToSql =
     (let keys = object_keys dataToUpdate in
      if length keys = 0 then Inl (BadRequestError ''No data'')
      else Inr \<lparr> setCols = join '', '' (cols keys jsToSql),
                 values = object_values dataToUpdate \<rparr>)"

text \<open>
  Reading a fragment back: the position of a fragment is the decimal number after its
  last \<^verbatim>\<open>$\<close>. These functions are not part of the program; they state what
  "the parameter position of a fragment" means.
\<close>

definition digit_value :: "char \<Rightarrow> nat option" where
  "digit_value c = (if c \<in> set ''0123456789'' then Some (of_char c - 48) else None)"

fun read_digits :: "nat \<Rightarrow> string \<Rightarrow> nat option" where
  "read_digits acc [] = Some acc"
| "read_digits acc (c # cs) =
     (case digit_value c of None \<Rightarrow> None | Some d \<Rightarrow> read_digits (10 * acc + d) cs)"

definition read_nat :: "string \<Rightarrow> nat option" where
  "read_nat s = (if s = [] then None else read_digits 0 s)"

definition placeholder_position :: "string \<Rightarrow> nat option" where
  "placeholder_position frag = read_nat (rev (takeWhile (\<lambda>c. c \<noteq> CHR ''$'') (rev frag)))"

section \<open>models/company and models/job: the filter builders of findAll\<close>

text \<open>
  \<^verbatim>\<open>findAll\<close> builds a query text and a parameter list and hands both to
  \<^verbatim>\<open>db.query\<close>; the rows it returns are the rows of that query. The builders below
  are the part before the call. The arguments are the destructured fields of the filter
  object, undefined when a field is absent.
\<close>

definition companies_select :: string where
  "companies_select =
     ''\<newline>'' @
     ''      SELECT handle,\<newline>'' @
     ''             name,\<newline>'' @
     ''             description,\<newline>'' @
     ''             num_employees AS \"numEmployees\",\<newline>'' @
     ''             logo_url AS \"logoUrl\"\<newline>'' @
     ''      FROM companies\<newline>'' @
     ''    ''"

definition Company_findAll_query :: "jsval \<Rightarrow> jsval \<Rightarrow> jsval \<Rightarrow> string \<times> jsval list" where
  "Company_findAll_query name minEmployees maxEmployees =
     (let query = companies_select;
          values = [];
          (query, values) =
            (if truthy name
             then (query @ '' WHERE name ILIKE $1'',
                   values @ [JStr (''%'' @ toString name @ ''%'')])
             else (query, values));
          (query, values) =
            (if truthy minEmployees
             then (query @ (if length values \<noteq> 0
                            then '' AND num_employees >= $'' @ show_nat (length values + 1)
                            else '' WHERE num_employees >= $1''),
                   values @ [minEmployees])
             else (query, values));
          (query, values) =
            (if truthy maxEmployees
             then (query @ (if length values \<noteq> 0
                            then '' AND num_employees <= $'' @ show_nat (length values + 1)
                            else '' WHERE num_employees <= $1''),
                   values @ [maxEmployees])
             else (query, values))
      in (query, values))"

definition jobs_select :: string where
  "jobs_select =
     ''\<newline>'' @
     ''      SELECT id,\<newline>'' @
     ''             title,\<newline>'' @
     ''             salary,\<newline>'' @
     ''             equity,\<newline>'' @
     ''             company_handle AS \"companyHandle\"\<newline>'' @
     ''      FROM jobs\<newline>'' @
     ''    ''"

definition Job_findAll_query :: "jsval \<Rightarrow> jsval \<Rightarrow> jsval \<Rightarrow> string \<times> jsval list" where
  "Job_findAll_query title minSalary hasEquity =
     (let query = jobs_select;
          values = [];
          (query, values) =
            (if truthy title
             then (query @ '' WHERE title ILIKE $1'',
                   values @ [JStr (''%'' @ toString title @ ''%'')])
             else (query, values));
          (query, values) =
            (if truthy minSalary
             then (query @ (if length values \<noteq> 0
                            then '' AND salary >= $'' @ show_nat (length values + 1)
                            else '' WHERE salary >= $1''),
                   values @ [minSalary])
             else (query, values));
          (query, values) =
            (if hasEquity \<noteq> JUndefined
             then (query @ (if length values \<noteq> 0
                            then '' AND equity > 0''
                            else '' WHERE equity > 0''),
                   values)
             else (query, values))
      in (query, values))"

text \<open>
  The filter builder as section 4.2 of the specification words it, for comparison with
  the two builders above: a filter is present or absent, has a fixed condition text
  (column and comparison operator) and at most one parameter. The first present filter is
  attached with WHERE, every later one with AND, and a parameter takes the next free
  position.
\<close>

datatype filter_spec = Filter (present: bool) (condition: string) (parameter: "jsval option")

fun spec_attach :: "string \<times> jsval list \<Rightarrow> bool \<Rightarrow> filter_spec list \<Rightarrow> string \<times> jsval list" where
  "spec_attach (q, vs) started [] = (q, vs)"
| "spec_attach (q, vs) started (f # fs) =
     (if present f
      then spec_attach
             (q @ (if started then '' AND '' else '' WHERE '') @ condition f
                @ (case parameter f of None \<Rightarrow> [] | Some v \<Rightarrow> '' $'' @ show_nat (length vs + 1)),
              vs @ (case parameter f of None \<Rightarrow> [] | Some v \<Rightarrow> [v]))
             True fs
      else spec_attach (q, vs) started fs)"

definition spec_filter_query :: "string \<Rightarrow> filter_spec list \<Rightarrow> string \<times> jsval list" where
  "spec_filter_query select fs = spec_attach (select, []) False fs"

text \<open>The number of places at which a text occurs in another.\<close>

fun occurrences :: "string \<Rightarrow> string \<Rightarrow> nat" where
  "occurrences pat [] = (if pat = [] then 1 else 0)"
| "occurrences pat (c # cs) =
     (if take (length pat) (c # cs) = pat then 1 else 0) + occurrences pat cs"

section \<open>The storage behind db.query\<close>

text \<open>
  Modelled from the spec: the query-execution collaborator (\<^verbatim>\<open>db.query\<close>: submit SQL
  text and positional parameters, receive a row set) and the schema of the two tables are
  not among the sources. Each statement the models send is given the meaning SQL gives
  it, on tables held as lists of rows; a row maps the column names the statements use to
  values, with \<open>JNull\<close> for NULL. The constraints of the schema are not modelled and a
  cell holds any value; the column types enter where an UPDATE binds its parameters. The
  job identifier comes from a sequence.
\<close>

type_synonym row = js_object

record db =
  companies :: "row list"
  jobs :: "row list"
  jobs_id_seq :: int

definition company_columns :: "string list" where
  "company_columns = [''handle'', ''name'', ''description'', ''num_employees'', ''logo_url'']"

definition job_columns :: "string list" where
  "job_columns = [''id'', ''title'', ''salary'', ''equity'', ''company_handle'']"

text \<open>An undefined parameter is sent as NULL.\<close>

definition pg_param :: "jsval \<Rightarrow> jsval" where
  "pg_param v = (if v = JUndefined then JNull else v)"

text \<open>The comparison \<^verbatim>\<open>a = b\<close> of a WHERE or ON clause: NULL equals nothing.\<close>

definition sql_eq :: "jsval \<Rightarrow> jsval \<Rightarrow> bool" where
  "sql_eq a b = (a \<noteq> JNull \<and> b \<noteq> JNull \<and> a = b)"

text \<open>A select list \<^verbatim>\<open>column AS alias, ...\<close> on one row, as pairs (alias, column).\<close>

definition project :: "(string \<times> string) list \<Rightarrow> row \<Rightarrow> row" where
  "project sel r = map (\<lambda>(alias, col). (alias, js_get r col)) sel"

definition company_returning :: "(string \<times> string) list" where
  "company_returning =
     [(''handle'', ''handle''), (''name'', ''name''), (''description'', ''description''),
      (''numEmployees'', ''num_employees''), (''logoUrl'', ''logo_url'')]"

definition job_returning :: "(string \<times> string) list" where
  "job_returning =
     [(''id'', ''id''), (''title'', ''title''), (''salary'', ''salary''), (''equity'', ''equity''),
      (''companyHandle'', ''company_handle'')]"

text \<open>\<^verbatim>\<open>SELECT col FROM table WHERE col = $1\<close>.\<close>

definition select_where :: "row list \<Rightarrow> string \<Rightarrow> jsval \<Rightarrow> row list" where
  "select_where table col p = map (project [(col, col)]) (filter (\<lambda>r. sql_eq (js_get r col) p) table)"

text \<open>
  \<^verbatim>\<open>INSERT INTO companies (handle, name, description, num_employees, logo_url)
  VALUES ($1, $2, $3, $4, $5) RETURNING ...\<close>
\<close>

definition insert_company :: "db \<Rightarrow> jsval list \<Rightarrow> row list \<times> db" where
  "insert_company d params =
     (let r = zip company_columns params
      in ([project company_returning r], d\<lparr>companies := companies d @ [r]\<rparr>))"

text \<open>
  \<^verbatim>\<open>INSERT INTO jobs (title, salary, equity, company_handle) VALUES ($1, $2, $3, $4)
  RETURNING ...\<close>; the id is the next value of the sequence.
\<close>

definition insert_job :: "db \<Rightarrow> jsval list \<Rightarrow> row list \<times> db" where
  "insert_job d params =
     (let r = zip job_columns (JNum (jobs_id_seq d) # params)
      in ([project job_returning r],
          d\<lparr>jobs := jobs d @ [r], jobs_id_seq := jobs_id_seq d + 1\<rparr>))"

text \<open>
  \<^verbatim>\<open>SELECT c.handle, ..., j.id AS job_id, ... FROM companies AS c
  LEFT JOIN jobs AS j ON c.handle = j.company_handle WHERE c.handle = $1\<close>:
  one row for each job of a selected company, and for a selected company without a job
  one row whose job columns are NULL.
\<close>

definition companies_left_join_jobs :: "db \<Rightarrow> jsval \<Rightarrow> row list" where
  "companies_left_join_jobs d p =
     concat (map (\<lambda>c.
        let js = filter (\<lambda>j. sql_eq (js_get c ''handle'') (js_get j ''company_handle'')) (jobs d)
        in if js = []
           then [project company_returning c
                   @ [(''job_id'', JNull), (''job_title'', JNull), (''job_salary'', JNull),
                      (''job_equity'', JNull)]]
           else map (\<lambda>j. project company_returning c
                       @ project [(''job_id'', ''id''), (''job_title'', ''title''),
                                  (''job_salary'', ''salary''), (''job_equity'', ''equity'')] j) js)
       (filter (\<lambda>c. sql_eq (js_get c ''handle'') p) (companies d)))"

text \<open>
  \<^verbatim>\<open>UPDATE table SET "c1"=$1, ..., "cn"=$n WHERE key = $n+1 RETURNING ...\<close>. The
  assignments are the fragments of \<open>setCols\<close> with their parameters, each fragment read
  as one quoted column name. Before it looks at any row the database rejects the
  statement when a name is not a column of the table, when a column is assigned twice, or
  when, binding the parameters, it does not accept a value or the key for its column.
  What a column accepts follows from the column types of the schema, which is not among
  the sources: it is the parameter \<open>accepts\<close>, from a column and a value. An accepted
  statement assigns to the rows with the key and returns them.
\<close>

definition update_accepted ::
  "(string \<Rightarrow> jsval \<Rightarrow> bool) \<Rightarrow> string list \<Rightarrow> (string \<times> jsval) list \<Rightarrow> string \<Rightarrow> jsval
     \<Rightarrow> bool" where
  "update_accepted accepts columns assignments key p =
     (list_all (\<lambda>c. c \<in> set columns) (map fst assignments)
      \<and> distinct (map fst assignments)
      \<and> list_all (\<lambda>(c, v). accepts c v) assignments
      \<and> accepts key p)"

definition assign :: "(string \<times> jsval) list \<Rightarrow> row \<Rightarrow> row" where
  "assign assignments r = foldl (\<lambda>r (c, v). js_set r c v) r assignments"

definition update_where ::
  "(string \<Rightarrow> jsval \<Rightarrow> bool) \<Rightarrow> string list \<Rightarrow> row list \<Rightarrow> (string \<times> jsval) list
     \<Rightarrow> string \<Rightarrow> jsval \<Rightarrow> error + (row list \<times> row list)" where
  "update_where accepts columns table assignments key p =
     (if \<not> update_accepted accepts columns assignments key p then Inl DatabaseError
      else Inr (map (assign assignments) (filter (\<lambda>r. sql_eq (js_get r key) p) table),
                map (\<lambda>r. if sql_eq (js_get r key) p then assign assignments r else r) table))"

text \<open>
  The assignments of the SET clause that \<^verbatim>\<open>update\<close> sends: the column of each
  field of the data, with the value at the same place of the parameter list.
\<close>

definition set_assignments :: "js_object \<Rightarrow> js_object \<Rightarrow> jsval list \<Rightarrow> (string \<times> jsval) list" where
  "set_assignments jsToSql data params =
     zip (map (column_name jsToSql) (object_keys data)) (map pg_param params)"

text \<open>
  Modelled from the spec: the column types of the data model (section 3), for use as
  \<open>accepts\<close>. The employee count, the salary and the job id are integers, the equity is
  a decimal, every other column is a string. Parameters reach the database as text. A
  string column takes any text and NULL goes into every column at bind. An integer
  column takes a number in the 32-bit range or a string that is the decimal text of one;
  a decimal column takes a number or a string of digits with at most one point. A
  boolean, an array or an object is sent as text that is neither. Blanks around a
  number and the other notations of numbers are left out.
\<close>

datatype sql_type = SqlText | SqlInteger | SqlNumeric

definition column_type :: "string \<Rightarrow> sql_type" where
  "column_type c =
     (if c \<in> set [''num_employees'', ''salary'', ''id''] then SqlInteger
      else if c = ''equity'' then SqlNumeric
      else SqlText)"

definition unsigned :: "string \<Rightarrow> string" where
  "unsigned s = (if take 1 s = ''-'' \<or> take 1 s = ''+'' then drop 1 s else s)"

fun decimal_value :: "int \<Rightarrow> string \<Rightarrow> int option" where
  "decimal_value acc [] = Some acc"
| "decimal_value acc (c # cs) =
     (case digit_value c of None \<Rightarrow> None | Some d \<Rightarrow> decimal_value (10 * acc + int d) cs)"

definition integer_text :: "string \<Rightarrow> bool" where
  "integer_text s =
     (unsigned s \<noteq> [] \<and>
      (case decimal_value 0 (unsigned s) of
         None \<Rightarrow> False
       | Some n \<Rightarrow> if take 1 s = ''-'' then n \<le> 2147483648 else n \<le> 2147483647))"

definition decimal_text :: "string \<Rightarrow> bool" where
  "decimal_text s =
     (let u = unsigned s;
          whole = takeWhile (\<lambda>c. c \<noteq> CHR ''.'') u;
          fraction = drop 1 (dropWhile (\<lambda>c. c \<noteq> CHR ''.'') u)
      in whole @ fraction \<noteq> [] \<and> list_all (\<lambda>c. digit_value c \<noteq> None) (whole @ fraction))"

fun type_accepts :: "sql_type \<Rightarrow> jsval \<Rightarrow> bool" where
  "type_accepts t JNull = True"
| "type_accepts t JUndefined = True"
| "type_accepts SqlText v = True"
| "type_accepts SqlInteger (JNum n) = (- 2147483648 \<le> n \<and> n \<le> 2147483647)"
| "type_accepts SqlInteger (JStr s) = integer_text s"
| "type_accepts SqlNumeric (JNum n) = True"
| "type_accepts SqlNumeric (JStr s) = decimal_text s"
| "type_accepts t v = False"

definition data_model_accepts :: "string \<Rightarrow> jsval \<Rightarrow> bool" where
  "data_model_accepts c v = type_accepts (column_type c) v"

section \<open>models/company\<close>

text \<open>
  Every operation takes the storage and returns its outcome with the storage after it;
  \<^verbatim>\<open>update\<close> also takes what the columns accept.
  \<^verbatim>\<open>rows[0]\<close> is undefined exactly when the row set is empty, and a row is truthy.
\<close>

definition Company_create :: "db \<Rightarrow> js_object \<Rightarrow> (error + jsval) \<times> db" where
  "Company_create d data =
     (let handle = js_get data ''handle'';
          name = js_get data ''name'';
          description = js_get data ''description'';
          numEmployees = js_get data ''numEmployees'';
          logoUrl = js_get data ''logoUrl'';
          duplicateCheck = select_where (companies d) ''handle'' (pg_param handle)
      in case duplicateCheck of
           _ # _ \<Rightarrow> (Inl (BadRequestError (''Duplicate company: '' @ toString handle)), d)
         | [] \<Rightarrow>
            (let (result, d') =
                   insert_company d (map pg_param [handle, name, description, numEmployees, logoUrl])
             in case result of
                  company # _ \<Rightarrow> (Inr (JObj company), d')
                | [] \<Rightarrow> (Inr JUndefined, d')))"

definition Company_get :: "db \<Rightarrow> jsval \<Rightarrow> error + jsval" where
  "Company_get d handle =
     (let companyRes = companies_left_join_jobs d (pg_param handle)
      in case companyRes of
           [] \<Rightarrow> Inl (NotFoundError (''No company: '' @ toString handle))
         | company # _ \<Rightarrow>
            (let jobs = map (\<lambda>row. JObj [(''id'', js_get row ''job_id''),
                                          (''title'', js_get row ''job_title''),
                                          (''salary'', js_get row ''job_salary''),
                                          (''equity'', js_get row ''job_equity'')]) companyRes;
                 company = js_delete company ''job_id'';
                 company = js_delete company ''job_title'';
                 company = js_delete company ''job_salary'';
                 company = js_delete company ''job_equity'';
                 company = js_set company ''jobs'' (JArr jobs)
             in Inr (JObj company)))"

text \<open>The translation \<^verbatim>\<open>Company.update\<close> passes to sqlForPartialUpdate.\<close>

definition Company_jsToSql :: js_object where
  "Company_jsToSql = [(''numEmployees'', JStr ''num_employees''), (''logoUrl'', JStr ''logo_url'')]"

definition Company_update ::
  "(string \<Rightarrow> jsval \<Rightarrow> bool) \<Rightarrow> db \<Rightarrow> jsval \<Rightarrow> js_object \<Rightarrow> (error + jsval) \<times> db" where
  "Company_update accepts d handle data =
     (let jsToSql = Company_jsToSql
      in case sqlForPartialUpdate data jsToSql of
           Inl e \<Rightarrow> (Inl e, d)
         | Inr u \<Rightarrow>
            (case update_where accepts company_columns (companies d)
                    (set_assignments jsToSql data (values u))
                    ''handle'' (pg_param handle) of
               Inl e \<Rightarrow> (Inl e, d)
             | Inr (result, table) \<Rightarrow>
                (case result of
                   [] \<Rightarrow> (Inl (NotFoundError (''No company: '' @ toString handle)),
                          d\<lparr>companies := table\<rparr>)
                 | company # _ \<Rightarrow>
                     (Inr (JObj (project company_returning company)), d\<lparr>companies := table\<rparr>))))"

section \<open>models/job\<close>

definition Job_create :: "db \<Rightarrow> js_object \<Rightarrow> (error + jsval) \<times> db" where
  "Job_create d data =
     (let title = js_get data ''title'';
          salary = js_get data ''salary'';
          equity = js_get data ''equity'';
          company_handle = js_get data ''company_handle'';
          duplicateCheck = select_where (jobs d) ''title'' (pg_param title)
      in case duplicateCheck of
           _ # _ \<Rightarrow> (Inl (BadRequestError (''Duplicate job: '' @ toString title)), d)
         | [] \<Rightarrow>
            (let (result, d') = insert_job d (map pg_param [title, salary, equity, company_handle])
             in case result of
                  job # _ \<Rightarrow> (Inr (JObj job), d')
                | [] \<Rightarrow> (Inr JUndefined, d')))"

text \<open>
  In \<^verbatim>\<open>Job.update\<close> the message of the not-found branch reads the identifier
  \<^verbatim>\<open>handle\<close>, which the function does not declare: evaluating it throws a
  ReferenceError before any NotFoundError is built.
\<close>

definition Job_jsToSql :: js_object where
  "Job_jsToSql = [(''title'', JStr ''title''), (''salary'', JStr ''salary''),
                  (''equity'', JStr ''equity''), (''companyHandle'', JStr ''company_handle'')]"

definition Job_update ::
  "(string \<Rightarrow> jsval \<Rightarrow> bool) \<Rightarrow> db \<Rightarrow> jsval \<Rightarrow> js_object \<Rightarrow> (error + jsval) \<times> db" where
  "Job_update accepts d id' data =
     (let jsToSql = Job_jsToSql
      in case sqlForPartialUpdate data jsToSql of
           Inl e \<Rightarrow> (Inl e, d)
         | Inr u \<Rightarrow>
            (case update_where accepts job_columns (jobs d)
                    (set_assignments jsToSql data (values u))
                    ''id'' (pg_param id') of
               Inl e \<Rightarrow> (Inl e, d)
             | Inr (result, table) \<Rightarrow>
                (case result of
                   [] \<Rightarrow> (Inl (ReferenceError ''handle is not defined''), d\<lparr>jobs := table\<rparr>)
                 | job # _ \<Rightarrow> (Inr (JObj (project job_returning job)), d\<lparr>jobs := table\<rparr>))))"

section \<open>A storage to run the operations on\<close>

text \<open>
  The company c1 with one job, and the company c2 without jobs.
\<close>

definition storage_example :: db where
  "storage_example =
     \<lparr> companies =
         [[(''handle'', JStr ''c1''), (''name'', JStr ''C1''), (''description'', JStr ''Desc1''),
           (''num_employees'', JNum 1), (''logo_url'', JStr ''http://c1.img'')],
          [(''handle'', JStr ''c2''), (''name'', JStr ''C2''), (''description'', JStr ''Desc2''),
           (''num_employees'', JNum 2), (''logo_url'', JNull)]],
       jobs =
         [[(''id'', JNum 1), (''title'', JStr ''Job1''), (''salary'', JNum 100),
           (''equity'', JStr ''0.1''), (''company_handle'', JStr ''c1'')]],
       jobs_id_seq = 2 \<rparr>"

section \<open>Properties of sqlForPartialUpdate\<close>

lemma show_nat_digit: "n < 10 \<Longrightarrow> show_nat n = [digit_char n]"
  by (simp add: show_nat.simps)

text \<open>
  C5. For the empty field mapping, sqlForPartialUpdate fails with the invalid-input error
  (BadRequestError "No data") and returns no result.
\<close>

theorem sqlForPartialUpdate_empty:
  "sqlForPartialUpdate [] jsToSql = Inl (BadRequestError ''No data'')"
  by (simp add: sqlForPartialUpdate_def object_keys_def)

text \<open>
  C7. For the mapping {a: 1, b: 2} and the translation {b: "bee"}, the fragments are
  "a"=$1 and "bee"=$2 (the key without a translation keeps its own name), they are
  returned joined by a comma and a space, and the values are [1, 2].
\<close>

theorem sqlForPartialUpdate_example:
  "cols (object_keys [(''a'', JNum 1), (''b'', JNum 2)]) [(''b'', JStr ''bee'')]
     = [''\"a\"=$1'', ''\"bee\"=$2'']
   \<and> sqlForPartialUpdate [(''a'', JNum 1), (''b'', JNum 2)] [(''b'', JStr ''bee'')]
     = Inr \<lparr> setCols = ''\"a\"=$1, \"bee\"=$2'', values = [JNum 1, JNum 2] \<rparr>"
  by (simp add: sqlForPartialUpdate_def object_keys_def object_values_def cols_def
      column_name_def js_or_def js_get_def show_nat_digit digit_char_def)

subsection \<open>Positions of the fragments\<close>

lemma digit_cases: "d < 10 \<Longrightarrow> d = 0 \<or> d = 1 \<or> d = 2 \<or> d = 3 \<or> d = 4 \<or> d = 5 \<or> d = 6 \<or> d = 7 \<or> d = 8 \<or> d = (9::nat)"
  by arith

lemma digit_value_digit_char: "d < 10 \<Longrightarrow> digit_value (digit_char d) = Some d"
  using digit_cases [of d] by (auto simp: digit_value_def digit_char_def)

lemma digit_char_not_dollar: "d < 10 \<Longrightarrow> digit_char d \<noteq> CHR ''$''"
  using digit_cases [of d] by (auto simp: digit_char_def)

lemma read_digits_snoc:
  "read_digits acc (xs @ [c]) =
     (case read_digits acc xs of None \<Rightarrow> None
      | Some v \<Rightarrow> (case digit_value c of None \<Rightarrow> None | Some d \<Rightarrow> Some (10 * v + d)))"
  by (induction xs arbitrary: acc) (auto split: option.splits)

lemma read_digits_show_nat: "read_digits 0 (show_nat n) = Some n"
proof (induction n rule: show_nat.induct)
  case (1 n)
  show ?case
  proof (cases "n < 10")
    case True
    then show ?thesis by (simp add: show_nat_digit digit_value_digit_char)
  next
    case False
    with 1 have "read_digits 0 (show_nat (n div 10)) = Some (n div 10)" by simp
    moreover have "show_nat n = show_nat (n div 10) @ [digit_char (n mod 10)]"
      using False by (subst show_nat.simps) simp
    ultimately show ?thesis
      by (simp add: read_digits_snoc digit_value_digit_char)
  qed
qed

lemma show_nat_not_Nil: "show_nat n \<noteq> []"
  by (subst show_nat.simps) simp

lemma show_nat_no_dollar: "CHR ''$'' \<notin> set (show_nat n)"
proof (induction n rule: show_nat.induct)
  case (1 n)
  show ?case
  proof (cases "n < 10")
    case True
    then show ?thesis using digit_char_not_dollar [of n] by (simp add: show_nat_digit)
  next
    case False
    moreover have "show_nat n = show_nat (n div 10) @ [digit_char (n mod 10)]"
      using False by (subst show_nat.simps) simp
    ultimately show ?thesis using 1 digit_char_not_dollar [of "n mod 10"] by auto
  qed
qed

lemma read_nat_show_nat: "read_nat (show_nat n) = Some n"
  by (simp add: read_nat_def show_nat_not_Nil read_digits_show_nat)

lemma placeholder_position_fragment:
  "placeholder_position (pre @ CHR ''$'' # show_nat n) = Some n"
proof -
  have "takeWhile (\<lambda>c. c \<noteq> CHR ''$'') (rev (show_nat n) @ CHR ''$'' # rev pre) = rev (show_nat n)"
    using show_nat_no_dollar [of n] by (subst takeWhile_append2) auto
  then show ?thesis
    by (simp add: placeholder_position_def read_nat_show_nat)
qed

lemma length_cols: "length (cols keys jsToSql) = length keys"
  by (simp add: cols_def)

lemma nth_cols:
  "i < length keys \<Longrightarrow>
   cols keys jsToSql ! i =
     ''\"'' @ column_name jsToSql (keys ! i) @ ''\"=$'' @ show_nat (Suc i)"
  by (simp add: cols_def nth_enumerate_eq)

lemma position_cols:
  "map placeholder_position (cols keys jsToSql) = map Some [1..<Suc (length keys)]"
proof (rule nth_equalityI)
  show "length (map placeholder_position (cols keys jsToSql)) = length (map Some [1..<Suc (length keys)])"
    by (simp add: length_cols del: upt_Suc)
next
  fix i assume "i < length (map placeholder_position (cols keys jsToSql))"
  then have i: "i < length keys" by (simp add: length_cols)
  have "placeholder_position (cols keys jsToSql ! i) = Some (Suc i)"
    using placeholder_position_fragment [of "''\"'' @ column_name jsToSql (keys ! i) @ ''\"=''" "Suc i"]
    by (simp add: nth_cols [OF i])
  with i show "map placeholder_position (cols keys jsToSql) ! i = map Some [1..<Suc (length keys)] ! i"
    by (simp add: length_cols del: upt_Suc)
qed

text \<open>
  C1. For every non-empty field mapping sqlForPartialUpdate returns a result; the number
  of fragments equals the number of returned values; read back, the positions of the
  fragments are 1, 2, ..., n in this order; and the i-th fragment names the column of the
  i-th enumerated field with position i, while the i-th returned value is that field's
  value. The returned text setCols is the fragments joined by a comma and a space.
\<close>

theorem sqlForPartialUpdate_positions:
  assumes "dataToUpdate \<noteq> []"
  shows "\<exists>r. sqlForPartialUpdate dataToUpdate jsToSql = Inr r
           \<and> setCols r = join '', '' (cols (object_keys dataToUpdate) jsToSql)
           \<and> length (cols (object_keys dataToUpdate) jsToSql) = length (values r)
           \<and> map placeholder_position (cols (object_keys dataToUpdate) jsToSql)
               = map Some [1..<Suc (length (values r))]
           \<and> (\<forall>i < length dataToUpdate.
                 values r ! i = snd (dataToUpdate ! i)
               \<and> cols (object_keys dataToUpdate) jsToSql ! i =
                   ''\"'' @ column_name jsToSql (fst (dataToUpdate ! i))
                     @ ''\"=$'' @ show_nat (Suc i))"
proof -
  let ?keys = "object_keys dataToUpdate"
  let ?r = "\<lparr> setCols = join '', '' (cols ?keys jsToSql), values = object_values dataToUpdate \<rparr>"
  have len: "length ?keys = length dataToUpdate" by (simp add: object_keys_def)
  have "sqlForPartialUpdate dataToUpdate jsToSql = Inr ?r"
    using assms by (simp add: sqlForPartialUpdate_def Let_def object_keys_def)
  moreover have "length (cols ?keys jsToSql) = length (values ?r)"
    by (simp add: length_cols object_keys_def object_values_def)
  moreover have "map placeholder_position (cols ?keys jsToSql) = map Some [1..<Suc (length (values ?r))]"
    using position_cols [of ?keys jsToSql] by (simp add: object_keys_def object_values_def)
  moreover have "\<forall>i < length dataToUpdate.
                 values ?r ! i = snd (dataToUpdate ! i)
               \<and> cols ?keys jsToSql ! i =
                   ''\"'' @ column_name jsToSql (fst (dataToUpdate ! i))
                     @ ''\"=$'' @ show_nat (Suc i)"
    using nth_cols [of _ ?keys jsToSql] by (simp add: object_keys_def object_values_def)
  ultimately show ?thesis by (intro exI [of _ ?r]) simp
qed

theorem sqlForPartialUpdate_positions_witness:
  "[(''firstName'', JStr ''Aliya''), (''age'', JNum 32)] \<noteq> []
   \<and> (\<exists>r. sqlForPartialUpdate [(''firstName'', JStr ''Aliya''), (''age'', JNum 32)]
              [(''firstName'', JStr ''first_name'')] = Inr r
          \<and> values r = [JStr ''Aliya'', JNum 32]
          \<and> map placeholder_position
               (cols [''firstName'', ''age''] [(''firstName'', JStr ''first_name'')])
              = [Some 1, Some 2])"
proof -
  let ?d = "[(''firstName'', JStr ''Aliya''), (''age'', JNum 32)]"
  let ?m = "[(''firstName'', JStr ''first_name'')]"
  have ne: "?d \<noteq> []" by simp
  from sqlForPartialUpdate_positions [OF ne, of ?m]
  obtain r where r: "sqlForPartialUpdate ?d ?m = Inr r"
    and p: "map placeholder_position (cols (object_keys ?d) ?m) = map Some [1..<Suc (length (values r))]"
    by blast
  from r have v: "values r = [JStr ''Aliya'', JNum 32]"
    by (auto simp: sqlForPartialUpdate_def object_keys_def object_values_def)
  from p v have q: "map placeholder_position (cols [''firstName'', ''age''] ?m) = [Some 1, Some 2]"
    by (simp add: object_keys_def)
  show ?thesis
    by (intro conjI exI [of _ r]) (rule ne r v q)+
qed

section \<open>Properties of the filter builders\<close>

text \<open>The eight outcomes of each builder, by which filters pass their test.\<close>

lemma Company_findAll_query_cases:
  "Company_findAll_query name minEmployees maxEmployees =
     (if truthy name then
        (if truthy minEmployees then
           (if truthy maxEmployees
            then (companies_select
                    @ '' WHERE name ILIKE $1 AND num_employees >= $2 AND num_employees <= $3'',
                  [JStr (''%'' @ toString name @ ''%''), minEmployees, maxEmployees])
            else (companies_select @ '' WHERE name ILIKE $1 AND num_employees >= $2'',
                  [JStr (''%'' @ toString name @ ''%''), minEmployees]))
         else
           (if truthy maxEmployees
            then (companies_select @ '' WHERE name ILIKE $1 AND num_employees <= $2'',
                  [JStr (''%'' @ toString name @ ''%''), maxEmployees])
            else (companies_select @ '' WHERE name ILIKE $1'',
                  [JStr (''%'' @ toString name @ ''%'')])))
      else
        (if truthy minEmployees then
           (if truthy maxEmployees
            then (companies_select @ '' WHERE num_employees >= $1 AND num_employees <= $2'',
                  [minEmployees, maxEmployees])
            else (companies_select @ '' WHERE num_employees >= $1'', [minEmployees]))
         else
           (if truthy maxEmployees
            then (companies_select @ '' WHERE num_employees <= $1'', [maxEmployees])
            else (companies_select, []))))"
  by (simp add: Company_findAll_query_def show_nat_digit digit_char_def)

lemma Job_findAll_query_cases:
  "Job_findAll_query title minSalary hasEquity =
     (if truthy title then
        (if truthy minSalary then
           (if hasEquity \<noteq> JUndefined
            then (jobs_select @ '' WHERE title ILIKE $1 AND salary >= $2 AND equity > 0'',
                  [JStr (''%'' @ toString title @ ''%''), minSalary])
            else (jobs_select @ '' WHERE title ILIKE $1 AND salary >= $2'',
                  [JStr (''%'' @ toString title @ ''%''), minSalary]))
         else
           (if hasEquity \<noteq> JUndefined
            then (jobs_select @ '' WHERE title ILIKE $1 AND equity > 0'',
                  [JStr (''%'' @ toString title @ ''%'')])
            else (jobs_select @ '' WHERE title ILIKE $1'',
                  [JStr (''%'' @ toString title @ ''%'')])))
      else
        (if truthy minSalary then
           (if hasEquity \<noteq> JUndefined
            then (jobs_select @ '' WHERE salary >= $1 AND equity > 0'', [minSalary])
            else (jobs_select @ '' WHERE salary >= $1'', [minSalary]))
         else
           (if hasEquity \<noteq> JUndefined
            then (jobs_select @ '' WHERE equity > 0'', [])
            else (jobs_select, []))))"
  by (simp add: Job_findAll_query_def show_nat_digit digit_char_def)

lemma occurrences_companies:
  "occurrences ''WHERE'' companies_select = 0"
  "occurrences ''WHERE'' (companies_select @ '' WHERE name ILIKE $1 AND num_employees >= $2'') = 1"
  "occurrences ''AND'' (companies_select @ '' WHERE name ILIKE $1 AND num_employees >= $2'') = 1"
  "occurrences ''WHERE'' (companies_select @ '' WHERE name ILIKE $1 AND num_employees <= $2'') = 1"
  "occurrences ''AND'' (companies_select @ '' WHERE name ILIKE $1 AND num_employees <= $2'') = 1"
  "occurrences ''WHERE'' (companies_select @ '' WHERE num_employees >= $1 AND num_employees <= $2'') = 1"
  "occurrences ''AND'' (companies_select @ '' WHERE num_employees >= $1 AND num_employees <= $2'') = 1"
  by (simp_all add: companies_select_def)

lemma occurrences_jobs:
  "occurrences ''WHERE'' jobs_select = 0"
  "occurrences ''WHERE'' (jobs_select @ '' WHERE title ILIKE $1 AND salary >= $2'') = 1"
  "occurrences ''AND'' (jobs_select @ '' WHERE title ILIKE $1 AND salary >= $2'') = 1"
  "occurrences ''WHERE'' (jobs_select @ '' WHERE title ILIKE $1 AND equity > 0'') = 1"
  "occurrences ''AND'' (jobs_select @ '' WHERE title ILIKE $1 AND equity > 0'') = 1"
  "occurrences ''WHERE'' (jobs_select @ '' WHERE salary >= $1 AND equity > 0'') = 1"
  "occurrences ''AND'' (jobs_select @ '' WHERE salary >= $1 AND equity > 0'') = 1"
  by (simp_all add: jobs_select_def)

lemma Company_query_keywords:
  "(length (filter truthy [name, minEmployees, maxEmployees]) = 0 \<longrightarrow>
      occurrences ''WHERE'' (fst (Company_findAll_query name minEmployees maxEmployees)) = 0)
   \<and> (length (filter truthy [name, minEmployees, maxEmployees]) = 2 \<longrightarrow>
      occurrences ''WHERE'' (fst (Company_findAll_query name minEmployees maxEmployees)) = 1
    \<and> occurrences ''AND'' (fst (Company_findAll_query name minEmployees maxEmployees)) = 1
    \<and> length (snd (Company_findAll_query name minEmployees maxEmployees)) = 2)"
  unfolding Company_findAll_query_cases by (simp add: occurrences_companies)

lemma Job_query_keywords:
  "(length (filter truthy [title, minSalary]) + (if hasEquity \<noteq> JUndefined then 1 else 0) = 0 \<longrightarrow>
      occurrences ''WHERE'' (fst (Job_findAll_query title minSalary hasEquity)) = 0)
   \<and> (length (filter truthy [title, minSalary]) + (if hasEquity \<noteq> JUndefined then 1 else 0) = 2 \<longrightarrow>
      occurrences ''WHERE'' (fst (Job_findAll_query title minSalary hasEquity)) = 1
    \<and> occurrences ''AND'' (fst (Job_findAll_query title minSalary hasEquity)) = 1
    \<and> length (snd (Job_findAll_query title minSalary hasEquity))
        = (if hasEquity \<noteq> JUndefined then 1 else 2))"
  unfolding Job_findAll_query_cases by (simp add: occurrences_jobs)

text \<open>
  C2, as the code has it. A filter is present when the builder's test of it passes: a
  truthy name, title, minimum or maximum, and a hasEquity that is not undefined. With no
  filter present the query has no WHERE. With exactly two present it has exactly one
  WHERE and one AND; the parameter list then has length 2 when neither of the two is
  hasEquity, and length 1 when one of them is hasEquity, whose clause takes no parameter.
\<close>

theorem findAll_where_and:
  "(length (filter truthy [name, minEmployees, maxEmployees]) = 0 \<longrightarrow>
      occurrences ''WHERE'' (fst (Company_findAll_query name minEmployees maxEmployees)) = 0)
   \<and> (length (filter truthy [name, minEmployees, maxEmployees]) = 2 \<longrightarrow>
      occurrences ''WHERE'' (fst (Company_findAll_query name minEmployees maxEmployees)) = 1
    \<and> occurrences ''AND'' (fst (Company_findAll_query name minEmployees maxEmployees)) = 1
    \<and> length (snd (Company_findAll_query name minEmployees maxEmployees)) = 2)
   \<and> (length (filter truthy [title, minSalary]) + (if hasEquity \<noteq> JUndefined then 1 else 0) = 0 \<longrightarrow>
      occurrences ''WHERE'' (fst (Job_findAll_query title minSalary hasEquity)) = 0)
   \<and> (length (filter truthy [title, minSalary]) + (if hasEquity \<noteq> JUndefined then 1 else 0) = 2 \<longrightarrow>
      occurrences ''WHERE'' (fst (Job_findAll_query title minSalary hasEquity)) = 1
    \<and> occurrences ''AND'' (fst (Job_findAll_query title minSalary hasEquity)) = 1
    \<and> length (snd (Job_findAll_query title minSalary hasEquity))
        = (if hasEquity \<noteq> JUndefined then 1 else 2))"
  using Company_query_keywords [of name minEmployees maxEmployees]
    Job_query_keywords [of title minSalary hasEquity]
  by (intro conjI) (erule conjE, assumption)+

theorem findAll_where_and_witness:
  "occurrences ''WHERE'' (fst (Company_findAll_query JUndefined JUndefined JUndefined)) = 0
   \<and> occurrences ''WHERE'' (fst (Company_findAll_query (JStr ''net'') JUndefined (JNum 500))) = 1
   \<and> occurrences ''AND'' (fst (Company_findAll_query (JStr ''net'') JUndefined (JNum 500))) = 1
   \<and> length (snd (Company_findAll_query (JStr ''net'') JUndefined (JNum 500))) = 2
   \<and> occurrences ''WHERE'' (fst (Job_findAll_query JUndefined JUndefined JUndefined)) = 0
   \<and> occurrences ''WHERE'' (fst (Job_findAll_query JUndefined (JNum 100) (JBool True))) = 1
   \<and> occurrences ''AND'' (fst (Job_findAll_query JUndefined (JNum 100) (JBool True))) = 1
   \<and> length (snd (Job_findAll_query JUndefined (JNum 100) (JBool True))) = 1"
  using findAll_where_and [of JUndefined JUndefined JUndefined JUndefined JUndefined JUndefined]
    findAll_where_and [of "JStr ''net''" JUndefined "JNum 500" JUndefined "JNum 100" "JBool True"]
  by simp

text \<open>
  C2 as the specification states it fails: a title and hasEquity are two present filters,
  the query has one WHERE and one AND, and the parameter list has length 1.
\<close>

theorem findAll_two_filters_counterexample:
  "length (filter truthy [JStr ''engineer'', JUndefined])
     + (if JBool True \<noteq> JUndefined then 1 else 0) = (2::nat)
   \<and> occurrences ''WHERE'' (fst (Job_findAll_query (JStr ''engineer'') JUndefined (JBool True))) = 1
   \<and> occurrences ''AND'' (fst (Job_findAll_query (JStr ''engineer'') JUndefined (JBool True))) = 1
   \<and> length (snd (Job_findAll_query (JStr ''engineer'') JUndefined (JBool True))) \<noteq> 2"
  by (simp add: Job_findAll_query_cases occurrences_jobs)

text \<open>
  C8. The builders are the specification's builder on a fixed table of filters: the name
  and the title are matched with ILIKE against the value between two percent signs (a
  case-insensitive substring match), the minimum bounds use >=, the maximum bound uses
  <=, and the has-equity flag adds the condition equity > 0.
\<close>

theorem findAll_operators:
  "Company_findAll_query name minEmployees maxEmployees =
     spec_filter_query companies_select
       [Filter (truthy name) ''name ILIKE'' (Some (JStr (''%'' @ toString name @ ''%''))),
        Filter (truthy minEmployees) ''num_employees >='' (Some minEmployees),
        Filter (truthy maxEmployees) ''num_employees <='' (Some maxEmployees)]
   \<and> Job_findAll_query title minSalary hasEquity =
     spec_filter_query jobs_select
       [Filter (truthy title) ''title ILIKE'' (Some (JStr (''%'' @ toString title @ ''%''))),
        Filter (truthy minSalary) ''salary >='' (Some minSalary),
        Filter (hasEquity \<noteq> JUndefined) ''equity > 0'' None]"
  by (simp add: Company_findAll_query_def Job_findAll_query_def spec_filter_query_def
      show_nat_digit digit_char_def)

text \<open>
  C9. A filter given the value 0 (minEmployees, maxEmployees, minSalary) or the empty
  string (name, title) yields the same query and the same parameters as the call without
  that filter.
\<close>

theorem findAll_falsy:
  "Company_findAll_query (JStr '''') minEmployees maxEmployees
     = Company_findAll_query JUndefined minEmployees maxEmployees
   \<and> Company_findAll_query name (JNum 0) maxEmployees
     = Company_findAll_query name JUndefined maxEmployees
   \<and> Company_findAll_query name minEmployees (JNum 0)
     = Company_findAll_query name minEmployees JUndefined
   \<and> Job_findAll_query (JStr '''') minSalary hasEquity
     = Job_findAll_query JUndefined minSalary hasEquity
   \<and> Job_findAll_query title (JNum 0) hasEquity
     = Job_findAll_query title JUndefined hasEquity"
  by (simp add: Company_findAll_query_def Job_findAll_query_def)

text \<open>
  C10. In Job.findAll every hasEquity other than undefined, false included, appends the
  clause equity > 0 (after WHERE when no parameter was added before it, after AND
  otherwise) and leaves the parameter list as it was; false and true give the same query.
\<close>

theorem Job_findAll_hasEquity:
  assumes "hasEquity \<noteq> JUndefined"
  shows "Job_findAll_query title minSalary hasEquity =
           (fst (Job_findAll_query title minSalary JUndefined)
              @ (if snd (Job_findAll_query title minSalary JUndefined) = []
                 then '' WHERE equity > 0'' else '' AND equity > 0''),
            snd (Job_findAll_query title minSalary JUndefined))
       \<and> Job_findAll_query title minSalary (JBool False)
           = Job_findAll_query title minSalary (JBool True)"
  using assms by (simp add: Job_findAll_query_def)

theorem Job_findAll_hasEquity_witness:
  "JBool False \<noteq> JUndefined
   \<and> Job_findAll_query JUndefined JUndefined (JBool False) = (jobs_select @ '' WHERE equity > 0'', [])
   \<and> Job_findAll_query JUndefined JUndefined (JBool False)
      = Job_findAll_query JUndefined JUndefined (JBool True)"
  using Job_findAll_hasEquity [of "JBool False" JUndefined JUndefined]
  by (simp add: Job_findAll_query_def)

section \<open>Properties of the repositories\<close>

subsection \<open>Statements on the storage\<close>

lemma sql_eq_JStr [simp]: "sql_eq v (JStr k) = (v = JStr k)"
  by (auto simp: sql_eq_def)

lemma sql_eq_JNum [simp]: "sql_eq v (JNum k) = (v = JNum k)"
  by (auto simp: sql_eq_def)

lemma filter_key_empty:
  "k \<notin> set (map f table) \<Longrightarrow> filter (\<lambda>r. f r = k) table = []"
  by (induction table) auto

lemma filter_key_nonempty:
  "k \<in> set (map f table) \<Longrightarrow> filter (\<lambda>r. f r = k) table \<noteq> []"
  by (induction table) auto

lemma filter_key_unique:
  "distinct (map f table) \<Longrightarrow> c \<in> set table \<Longrightarrow> filter (\<lambda>r. f r = f c) table = [c]"
proof (induction table)
  case Nil
  then show ?case by simp
next
  case (Cons r table)
  show ?case
  proof (cases "r = c")
    case True
    with Cons.prems have "f c \<notin> set (map f table)" by simp
    then have "filter (\<lambda>r. f r = f c) table = []" by (rule filter_key_empty)
    with True show ?thesis by simp
  next
    case False
    with Cons.prems have c: "c \<in> set table" and d: "distinct (map f table)" and "f r \<noteq> f c"
      by auto
    with Cons.IH show ?thesis by simp
  qed
qed

lemma map_unmatched:
  "k \<notin> set (map f table) \<Longrightarrow> map (\<lambda>r. if f r = k then g r else r) table = table"
  by (induction table) auto

lemma select_where_present:
  "JStr k \<in> set (map (\<lambda>r. js_get r col) table) \<Longrightarrow> select_where table col (JStr k) \<noteq> []"
  using filter_key_nonempty [of "JStr k" "\<lambda>r. js_get r col" table]
  by (simp add: select_where_def)

lemma update_where_missing:
  assumes "p = JStr k \<or> p = JNum i"
    and "p \<notin> set (map (\<lambda>r. js_get r key) table)"
  shows "update_where accepts columns table assignments key p =
           (if update_accepted accepts columns assignments key p then Inr ([], table)
            else Inl DatabaseError)"
  using assms filter_key_empty [of p "\<lambda>r. js_get r key" table]
    map_unmatched [of p "\<lambda>r. js_get r key" table "assign assignments"]
  by (auto simp: update_where_def)

subsection \<open>create\<close>

text \<open>
  C6. When a company with the handle of the data is stored, Company.create fails with
  BadRequestError "Duplicate company: <handle>" and the storage is as before; when a job
  with the title of the data is stored, Job.create fails with BadRequestError
  "Duplicate job: <title>" and the storage is as before. No insert is made.
\<close>

theorem create_duplicate:
  "(JStr handle \<in> set (map (\<lambda>r. js_get r ''handle'') (companies d))
      \<and> js_get data ''handle'' = JStr handle
    \<longrightarrow> Company_create d data = (Inl (BadRequestError (''Duplicate company: '' @ handle)), d))
   \<and> (JStr title \<in> set (map (\<lambda>r. js_get r ''title'') (jobs d))
      \<and> js_get data ''title'' = JStr title
    \<longrightarrow> Job_create d data = (Inl (BadRequestError (''Duplicate job: '' @ title)), d))"
proof (intro conjI impI)
  assume "JStr handle \<in> set (map (\<lambda>r. js_get r ''handle'') (companies d))
            \<and> js_get data ''handle'' = JStr handle"
  then have "select_where (companies d) ''handle'' (JStr handle) \<noteq> []"
    and "js_get data ''handle'' = JStr handle"
    by (simp_all add: select_where_present)
  then show "Company_create d data = (Inl (BadRequestError (''Duplicate company: '' @ handle)), d)"
    by (simp add: Company_create_def Let_def pg_param_def split: list.splits)
next
  assume "JStr title \<in> set (map (\<lambda>r. js_get r ''title'') (jobs d))
            \<and> js_get data ''title'' = JStr title"
  then have "select_where (jobs d) ''title'' (JStr title) \<noteq> []"
    and "js_get data ''title'' = JStr title"
    by (simp_all add: select_where_present)
  then show "Job_create d data = (Inl (BadRequestError (''Duplicate job: '' @ title)), d)"
    by (simp add: Job_create_def Let_def pg_param_def split: list.splits)
qed

theorem create_duplicate_witness:
  "Company_create storage_example
     [(''handle'', JStr ''c1''), (''name'', JStr ''Other''), (''description'', JStr ''d''),
      (''numEmployees'', JNum 5), (''logoUrl'', JNull)]
     = (Inl (BadRequestError ''Duplicate company: c1''), storage_example)
   \<and> Job_create storage_example
     [(''title'', JStr ''Job1''), (''salary'', JNum 7), (''equity'', JStr ''0''),
      (''company_handle'', JStr ''c2'')]
     = (Inl (BadRequestError ''Duplicate job: Job1''), storage_example)"
  using create_duplicate
    [of "''c1''" storage_example
        "[(''handle'', JStr ''c1''), (''name'', JStr ''Other''), (''description'', JStr ''d''),
          (''numEmployees'', JNum 5), (''logoUrl'', JNull)]"]
    create_duplicate
    [of _ storage_example
        "[(''title'', JStr ''Job1''), (''salary'', JNum 7), (''equity'', JStr ''0''),
          (''company_handle'', JStr ''c2'')]" "''Job1''"]
  by (simp add: js_get_def storage_example_def)

subsection \<open>update\<close>



lemma sqlForPartialUpdate_nonempty:
  "data \<noteq> [] \<Longrightarrow>
   sqlForPartialUpdate data jsToSql =
     Inr \<lparr> setCols = join '', '' (cols (object_keys data) jsToSql), values = object_values data \<rparr>"
  by (simp add: sqlForPartialUpdate_def object_keys_def)

text \<open>
  On a key that no row has, an update with fields ends in the branch for an empty result
  when the database accepts the statement, and in the database's error otherwise; the
  table is as before.
\<close>

lemma Company_update_missing:
  assumes "JStr handle \<notin> set (map (\<lambda>r. js_get r ''handle'') (companies d))"
    and "data \<noteq> []"
  shows "Company_update accepts d (JStr handle) data =
           (if update_accepted accepts company_columns
                 (set_assignments Company_jsToSql data (object_values data)) ''handle'' (JStr handle)
            then (Inl (NotFoundError (''No company: '' @ handle)), d)
            else (Inl DatabaseError, d))"
  using update_where_missing [of "JStr handle" handle _ "''handle''" "companies d", OF _ assms(1)]
  by (simp add: Company_update_def sqlForPartialUpdate_nonempty [OF assms(2)] pg_param_def)

lemma Job_update_missing:
  assumes "JNum jid \<notin> set (map (\<lambda>r. js_get r ''id'') (jobs d))"
    and "data \<noteq> []"
  shows "Job_update accepts d (JNum jid) data =
           (if update_accepted accepts job_columns
                 (set_assignments Job_jsToSql data (object_values data)) ''id'' (JNum jid)
            then (Inl (ReferenceError ''handle is not defined''), d)
            else (Inl DatabaseError, d))"
  using update_where_missing [of "JNum jid" _ jid "''id''" "jobs d", OF _ assms(1)]
  by (simp add: Job_update_def sqlForPartialUpdate_nonempty [OF assms(2)] pg_param_def)




text \<open>
  A value its column does not take: the employee count is an integer column, the text abc
  is rejected when the parameters are bound, and the update of the key nope ends in the
  database's error, not in NotFoundError.
\<close>

lemma Company_update_rejected_example:
  "Company_update data_model_accepts storage_example (JStr ''nope'')
     [(''numEmployees'', JStr ''abc'')]
     = (Inl DatabaseError, storage_example)"
proof -
  have "JStr ''nope'' \<notin> set (map (\<lambda>r. js_get r ''handle'') (companies storage_example))"
    by (simp add: storage_example_def js_get_def)
  from Company_update_missing [OF this, of "[(''numEmployees'', JStr ''abc'')]" data_model_accepts]
  show ?thesis
    by (simp add: update_accepted_def set_assignments_def company_columns_def column_name_def
        Company_jsToSql_def object_keys_def object_values_def js_get_def js_or_def pg_param_def
        data_model_accepts_def column_type_def integer_text_def unsigned_def digit_value_def)
qed

text \<open>
  The not-found branch of Job.update: for an accepted statement on a missing id the error
  is the ReferenceError of the undeclared identifier.
\<close>

lemma Job_update_missing_example:
  "Job_update data_model_accepts storage_example (JNum 0) [(''title'', JStr ''New'')]
     = (Inl (ReferenceError ''handle is not defined''), storage_example)"
proof -
  have "JNum 0 \<notin> set (map (\<lambda>r. js_get r ''id'') (jobs storage_example))"
    by (simp add: storage_example_def js_get_def)
  from Job_update_missing [OF this, of "[(''title'', JStr ''New'')]" data_model_accepts]
  show ?thesis
    by (simp add: update_accepted_def set_assignments_def job_columns_def column_name_def
        Job_jsToSql_def object_keys_def object_values_def js_get_def js_or_def pg_param_def
        data_model_accepts_def column_type_def)
qed

text \<open>
  The same updates on keys that are stored succeed and change the row: the outcome of an
  update depends on the storage.
\<close>

lemma Company_update_existing_example:
  "Company_update data_model_accepts storage_example (JStr ''c2'') [(''numEmployees'', JNum 7)]
     = (Inr (JObj [(''handle'', JStr ''c2''), (''name'', JStr ''C2''),
                   (''description'', JStr ''Desc2''), (''numEmployees'', JNum 7),
                   (''logoUrl'', JNull)]),
        storage_example
          \<lparr> companies :=
              [[(''handle'', JStr ''c1''), (''name'', JStr ''C1''), (''description'', JStr ''Desc1''),
                (''num_employees'', JNum 1), (''logo_url'', JStr ''http://c1.img'')],
               [(''handle'', JStr ''c2''), (''name'', JStr ''C2''), (''description'', JStr ''Desc2''),
                (''num_employees'', JNum 7), (''logo_url'', JNull)]] \<rparr>)"
  by (simp add: Company_update_def sqlForPartialUpdate_def update_where_def update_accepted_def
      set_assignments_def assign_def company_columns_def company_returning_def project_def
      column_name_def Company_jsToSql_def object_keys_def object_values_def js_get_def js_or_def
      pg_param_def data_model_accepts_def column_type_def storage_example_def)

lemma Job_update_existing_example:
  "Job_update data_model_accepts storage_example (JNum 1) [(''title'', JStr ''New'')]
     = (Inr (JObj [(''id'', JNum 1), (''title'', JStr ''New''), (''salary'', JNum 100),
                   (''equity'', JStr ''0.1''), (''companyHandle'', JStr ''c1'')]),
        storage_example
          \<lparr> jobs :=
              [[(''id'', JNum 1), (''title'', JStr ''New''), (''salary'', JNum 100),
                (''equity'', JStr ''0.1''), (''company_handle'', JStr ''c1'')]] \<rparr>)"
  by (simp add: Job_update_def sqlForPartialUpdate_def update_where_def update_accepted_def
      set_assignments_def assign_def job_columns_def job_returning_def project_def
      column_name_def Job_jsToSql_def object_keys_def object_values_def js_get_def js_or_def
      pg_param_def data_model_accepts_def column_type_def storage_example_def)

subsection \<open>get\<close>

lemma left_join_existing:
  assumes "distinct (map (\<lambda>r. js_get r ''handle'') (companies d))"
    and "c \<in> set (companies d)"
    and "js_get c ''handle'' = JStr h"
  shows "companies_left_join_jobs d (JStr h) =
           (let js = filter (\<lambda>j. js_get j ''company_handle'' = JStr h) (jobs d)
            in if js = []
               then [project company_returning c
                       @ [(''job_id'', JNull), (''job_title'', JNull), (''job_salary'', JNull),
                          (''job_equity'', JNull)]]
               else map (\<lambda>j. project company_returning c
                           @ project [(''job_id'', ''id''), (''job_title'', ''title''),
                                      (''job_salary'', ''salary''), (''job_equity'', ''equity'')] j) js)"
proof -
  have "filter (\<lambda>r. js_get r ''handle'' = JStr h) (companies d) = [c]"
    using filter_key_unique [OF assms(1,2)] assms(3) by simp
  moreover have "(\<lambda>j. sql_eq (JStr h) (js_get j ''company_handle''))
                   = (\<lambda>j. js_get j ''company_handle'' = JStr h)"
    by (auto simp: sql_eq_def)
  ultimately show ?thesis
    by (simp add: companies_left_join_jobs_def assms(3))
qed

text \<open>
  What Company.get returns for a stored company: for a company without jobs the jobs
  list is one entry with four nulls, made from the row the LEFT JOIN yields for it; for
  a company with jobs it has one entry for each of its jobs, in the order of the rows.
\<close>

lemma Company_get_existing:
  assumes "distinct (map (\<lambda>r. js_get r ''handle'') (companies d))"
    and "c \<in> set (companies d)"
    and "js_get c ''handle'' = JStr h"
  shows "Company_get d (JStr h) =
           Inr (JObj (project company_returning c @
             [(''jobs'', JArr
                (let js = filter (\<lambda>j. js_get j ''company_handle'' = JStr h) (jobs d)
                 in if js = []
                    then [JObj [(''id'', JNull), (''title'', JNull), (''salary'', JNull),
                                (''equity'', JNull)]]
                    else map (\<lambda>j. JObj (project [(''id'', ''id''), (''title'', ''title''),
                                                   (''salary'', ''salary''), (''equity'', ''equity'')] j))
                           js))]))"
proof (cases "filter (\<lambda>j. js_get j ''company_handle'' = JStr h) (jobs d)")
  case Nil
  then show ?thesis
    by (simp add: Company_get_def left_join_existing [OF assms] pg_param_def project_def
        company_returning_def js_delete_def js_get_def)
next
  case (Cons j js)
  then show ?thesis
    by (simp add: Company_get_def left_join_existing [OF assms] pg_param_def project_def
        company_returning_def js_delete_def js_get_def)
qed

text \<open>
  C3. The claim asks for an empty jobs list when the company has no jobs. On the code the
  company c2, stored without jobs, is returned with a jobs list of one entry whose id,
  title, salary and equity are null, so the list is not empty.
\<close>

theorem Company_get_no_jobs_example:
  "Company_get storage_example (JStr ''c2'') =
     Inr (JObj [(''handle'', JStr ''c2''), (''name'', JStr ''C2''), (''description'', JStr ''Desc2''),
                (''numEmployees'', JNum 2), (''logoUrl'', JNull),
                (''jobs'', JArr [JObj [(''id'', JNull), (''title'', JNull), (''salary'', JNull),
                                       (''equity'', JNull)]])])
   \<and> js_get (case Company_get storage_example (JStr ''c2'') of Inr (JObj company) \<Rightarrow> company | _ \<Rightarrow> [])
        ''jobs'' \<noteq> JArr []"
  by (simp add: Company_get_def companies_left_join_jobs_def storage_example_def pg_param_def
      project_def company_returning_def js_delete_def js_get_def sql_eq_def)

lemma Company_get_with_jobs_example:
  "Company_get storage_example (JStr ''c1'') =
     Inr (JObj [(''handle'', JStr ''c1''), (''name'', JStr ''C1''), (''description'', JStr ''Desc1''),
                (''numEmployees'', JNum 1), (''logoUrl'', JStr ''http://c1.img''),
                (''jobs'', JArr [JObj [(''id'', JNum 1), (''title'', JStr ''Job1''),
                                       (''salary'', JNum 100), (''equity'', JStr ''0.1'')]])])"
  by (simp add: Company_get_def companies_left_join_jobs_def storage_example_def pg_param_def
      project_def company_returning_def js_delete_def js_get_def sql_eq_def)

end
